theory Spec2Isabelle
  imports Complex_Main
begin

section \<open>Values exchanged with the HTTP layer and the rendering engine\<close>

text \<open>
  The request body and the render options are parsed JSON, so they are JavaScript values
  of the JSON fragment. A number is the rational value of the parsed double (JSON has
  neither NaN nor the infinities), a string is its sequence of code units, an object is
  the list of its own properties in insertion order (property names are distinct).
  An absent property (\<open>undefined\<close>) is \<open>None\<close> wherever a property is read.
\<close>

datatype json =
    JNull
  | JBool bool
  | JNum rat
  | JStr string
  | JArr "json list"
  | JObj "(string \<times> json) list"

text \<open>What \<open>!v\<close> tests: \<open>null\<close>, \<open>false\<close>, \<open>0\<close> and \<open>""\<close> are falsy.\<close>

fun truthy :: "json \<Rightarrow> bool" where
  "truthy JNull = False"
| "truthy (JBool b) = b"
| "truthy (JNum r) = (r \<noteq> 0)"
| "truthy (JStr s) = (s \<noteq> [])"
| "truthy (JArr xs) = True"
| "truthy (JObj kvs) = True"

text \<open>Decimal rendering of an array index, as used for the property names of arrays and strings.\<close>

definition digit_char :: "nat \<Rightarrow> char" where
  "digit_char d = char_of (48 + d)"

fun dec_string :: "nat \<Rightarrow> string" where
  "dec_string n = (if n < 10 then [digit_char n] else dec_string (n div 10) @ [digit_char (n mod 10)])"

definition index_keys :: "nat \<Rightarrow> string list" where
  "index_keys n = map dec_string [0..<n]"

text \<open>
  The own enumerable properties that an object spread \<open>{...v}\<close> copies: the properties of
  an object, the indexed elements of an array, the indexed characters of a string, and
  nothing for \<open>null\<close>, a boolean or a number.
\<close>

fun own_props :: "json \<Rightarrow> (string \<times> json) list" where
  "own_props (JObj kvs) = kvs"
| "own_props (JArr xs) = zip (index_keys (length xs)) xs"
| "own_props (JStr s) = zip (index_keys (length s)) (map (\<lambda>c. JStr [c]) s)"
| "own_props JNull = []"
| "own_props (JBool b) = []"
| "own_props (JNum r) = []"

text \<open>
  Reading a data property \<open>v.k\<close> of a non-null value: an object's own property, the
  \<open>length\<close> and the indexed elements of an array or a string. The handlers read only
  \<open>html\<close>, \<open>options\<close> and \<open>length\<close>, none of which is inherited from a prototype.
\<close>

fun get_prop :: "json \<Rightarrow> string \<Rightarrow> json option" where
  "get_prop (JObj kvs) k = map_of kvs k"
| "get_prop (JArr xs) k =
     (if k = ''length'' then Some (JNum (of_nat (length xs))) else map_of (own_props (JArr xs)) k)"
| "get_prop (JStr s) k =
     (if k = ''length'' then Some (JNum (of_nat (length s))) else map_of (own_props (JStr s)) k)"
| "get_prop JNull k = None"
| "get_prop (JBool b) k = None"
| "get_prop (JNum r) k = None"

text \<open>
  Converting a value to a string, as a template literal does with \<open>${v}\<close>, can throw. An
  object is converted by its \<open>toString\<close> method; an own property \<open>toString\<close> of an
  object that came from JSON is never a function and hides the inherited method, the
  inherited \<open>valueOf\<close> then answers the object itself, and the conversion ends in a
  \<open>TypeError\<close>. An array is converted by joining the strings of its elements (\<open>null\<close>
  gives the empty string), so it throws when one of them does. Nothing else throws.
\<close>

fun to_string_throws :: "json \<Rightarrow> bool" where
  "to_string_throws (JObj kvs) = (map_of kvs ''toString'' \<noteq> None)"
| "to_string_throws (JArr xs) = list_ex to_string_throws xs"
| "to_string_throws JNull = False"
| "to_string_throws (JBool b) = False"
| "to_string_throws (JNum r) = False"
| "to_string_throws (JStr s) = False"

text \<open>A thrown or rejected value is an \<open>Error\<close> object; only its message is ever read.\<close>

datatype js_error = Error (message: string)

type_synonym bytes = "nat list"

type_synonym pdf_options = "string \<rightharpoonup> json"

section \<open>The rendering engine\<close>

text \<open>
  Puppeteer is outside the repository. \<open>generatePDF\<close> calls each engine operation at
  most once per attempt and in a fixed order, so an engine is described by what its
  operations answer during each attempt: whether the launch, the new page and the
  content load reject, what the PDF export answers for the options it is given, what
  \<open>page.isClosed()\<close> reports during cleanup, and whether the two close calls reject.
\<close>

record attempt_script =
  launch_result :: "js_error option"
  newPage_result :: "js_error option"
  setContent_result :: "json \<Rightarrow> js_error option"
  pdf_result :: "pdf_options \<Rightarrow> js_error + bytes"
  isClosed_result :: bool
  page_close_result :: "js_error option"
  browser_close_result :: "js_error option"

type_synonym engine = "int \<Rightarrow> attempt_script"

text \<open>The browser and the page created during an attempt, named by that attempt.\<close>

datatype browser = Browser int

datatype page = Page int

text \<open>
  Everything \<open>generatePDF\<close> and the handler do that is visible from outside: engine
  calls with their outcome, timers, and console lines.
\<close>

datatype event =
    LogAttempt int int
  | LaunchCall "js_error + browser"
  | NewPageCall browser "js_error + page"
  | LogSettingContent
  | SetContentCall page json "js_error option"
  | SettleDelay nat
  | LogGenerating
  | PdfCall page pdf_options "js_error + bytes"
  | LogSuccess nat
  | LogFailed int string
  | LogWaiting int
  | RetryWait nat
  | IsClosedCall page bool
  | PageCloseCall page "js_error option"
  | WarnPageClose string
  | BrowserCloseCall browser "js_error option"
  | WarnBrowserClose string
  | LogConverting "json option"
  | LogServerError string

text \<open>How a block of statements completes: by falling through, by \<open>return\<close>, or by \<open>throw\<close>.\<close>

datatype 'a completion = Normal | Return 'a | Throw js_error

section \<open>generatePDF\<close>

text \<open>The default PDF options of lines 62-71, before the caller's options are spread over them.\<close>

definition default_pdf_options :: "(string \<times> json) list" where
  "default_pdf_options =
     [(''format'', JStr ''A4''),
      (''printBackground'', JBool True),
      (''margin'', JObj [(''top'', JStr ''1cm''), (''right'', JStr ''1cm''),
                         (''bottom'', JStr ''1cm''), (''left'', JStr ''1cm'')]),
      (''timeout'', JNum 30000)]"

text \<open>\<open>{ format, printBackground, margin, timeout, ...options }\<close>: a later property wins.\<close>

definition pdfOptions :: "json \<Rightarrow> pdf_options" where
  "pdfOptions options = map_of default_pdf_options ++ map_of (own_props options)"

text \<open>
  The \<open>try\<close> block of one attempt (lines 31-80). It yields its completion, the values of
  the variables \<open>browser\<close> and \<open>page\<close> when it is left, and its events.
\<close>

definition try_block ::
  "engine \<Rightarrow> json \<Rightarrow> json \<Rightarrow> int \<Rightarrow> int \<Rightarrow> bytes completion \<times> browser option \<times> page option \<times> event list" where
  "try_block eng html options maxRetries attempt =
     (let s = eng attempt; b = Browser attempt; p = Page attempt;
          t0 = [LogAttempt attempt maxRetries] in
      case launch_result s of
        Some e \<Rightarrow> (Throw e, None, None, t0 @ [LaunchCall (Inl e)])
      | None \<Rightarrow>
          (let t1 = t0 @ [LaunchCall (Inr b)] in
           case newPage_result s of
             Some e \<Rightarrow> (Throw e, Some b, None, t1 @ [NewPageCall b (Inl e)])
           | None \<Rightarrow>
               (let t2 = t1 @ [NewPageCall b (Inr p), LogSettingContent] in
                case setContent_result s html of
                  Some e \<Rightarrow> (Throw e, Some b, Some p, t2 @ [SetContentCall p html (Some e)])
                | None \<Rightarrow>
                    (let t3 = t2 @ [SetContentCall p html None, SettleDelay 2000, LogGenerating];
                         po = pdfOptions options in
                     case pdf_result s po of
                       Inl e \<Rightarrow> (Throw e, Some b, Some p, t3 @ [PdfCall p po (Inl e)])
                     | Inr pdf \<Rightarrow>
                         (Return pdf, Some b, Some p,
                          t3 @ [PdfCall p po (Inr pdf), LogSuccess (length pdf)])))))"

text \<open>
  The \<open>catch\<close> block (lines 81-91): it records the error in \<open>lastError\<close>, rethrows on the
  last attempt and otherwise waits two seconds. It yields its completion, the new value
  of \<open>lastError\<close> and its events.
\<close>

definition catch_block ::
  "js_error \<Rightarrow> int \<Rightarrow> int \<Rightarrow> bytes completion \<times> js_error option \<times> event list" where
  "catch_block error maxRetries attempt =
     (let lastError = error; t = [LogFailed attempt (message error)] in
      if attempt = maxRetries then (Throw lastError, Some lastError, t)
      else (Normal, Some lastError, t @ [LogWaiting (attempt + 1), RetryWait 2000]))"

text \<open>The two guarded close statements of the \<open>finally\<close> block, each with its own \<open>try\<close>/\<open>catch\<close>.\<close>

definition try_close_page :: "page \<Rightarrow> attempt_script \<Rightarrow> bytes completion \<times> event list" where
  "try_close_page p s =
     (if \<not> isClosed_result s then
        (case page_close_result s of
           None \<Rightarrow> (Normal, [IsClosedCall p False, PageCloseCall p None])
         | Some e \<Rightarrow> (Throw e, [IsClosedCall p False, PageCloseCall p (Some e)]))
      else (Normal, [IsClosedCall p True]))"

definition close_page_stmt :: "page option \<Rightarrow> attempt_script \<Rightarrow> bytes completion \<times> event list" where
  "close_page_stmt page s =
     (case page of
        None \<Rightarrow> (Normal, [])
      | Some p \<Rightarrow>
          (case try_close_page p s of
             (Throw closeError, t) \<Rightarrow> (Normal, t @ [WarnPageClose (message closeError)])
           | (c, t) \<Rightarrow> (c, t)))"

definition try_close_browser :: "browser \<Rightarrow> attempt_script \<Rightarrow> bytes completion \<times> event list" where
  "try_close_browser b s =
     (case browser_close_result s of
        None \<Rightarrow> (Normal, [BrowserCloseCall b None])
      | Some e \<Rightarrow> (Throw e, [BrowserCloseCall b (Some e)]))"

definition close_browser_stmt :: "browser option \<Rightarrow> attempt_script \<Rightarrow> bytes completion \<times> event list" where
  "close_browser_stmt browser s =
     (case browser of
        None \<Rightarrow> (Normal, [])
      | Some b \<Rightarrow>
          (case try_close_browser b s of
             (Throw browserCloseError, t) \<Rightarrow> (Normal, t @ [WarnBrowserClose (message browserCloseError)])
           | (c, t) \<Rightarrow> (c, t)))"

text \<open>
  The \<open>finally\<close> block (lines 92-111): the two statements in sequence; the second runs
  only if the first completes normally.
\<close>

definition finally_block ::
  "browser option \<Rightarrow> page option \<Rightarrow> attempt_script \<Rightarrow> bytes completion \<times> event list" where
  "finally_block browser page s =
     (case close_page_stmt page s of
        (Normal, t1) \<Rightarrow> (case close_browser_stmt browser s of (c, t2) \<Rightarrow> (c, t1 @ t2))
      | (c, t1) \<Rightarrow> (c, t1))"

text \<open>
  One pass through the loop body: \<open>try\<close>, then \<open>catch\<close> if the \<open>try\<close> block threw, then
  \<open>finally\<close>. An abrupt completion of the \<open>finally\<close> block replaces the completion of
  \<open>try\<close>/\<open>catch\<close>; a normal one keeps it.
\<close>

definition iteration ::
  "engine \<Rightarrow> json \<Rightarrow> json \<Rightarrow> int \<Rightarrow> int \<Rightarrow> js_error option \<Rightarrow>
     bytes completion \<times> js_error option \<times> event list" where
  "iteration eng html options maxRetries attempt lastError =
     (case try_block eng html options maxRetries attempt of
        (c, browser, page, t1) \<Rightarrow>
          (case (case c of Throw error \<Rightarrow> catch_block error maxRetries attempt
                         | _ \<Rightarrow> (c, lastError, [])) of
             (c', lastError', t2) \<Rightarrow>
               (case finally_block browser page (eng attempt) of
                  (Normal, t3) \<Rightarrow> (c', lastError', t1 @ t2 @ t3)
                | (cf, t3) \<Rightarrow> (cf, lastError', t1 @ t2 @ t3))))"

text \<open>What a call of \<open>generatePDF\<close> gives its caller: a value (\<open>None\<close> is \<open>undefined\<close>) or a thrown error.\<close>

datatype outcome = Returned "bytes option" | Thrown js_error

text \<open>
  The loop \<open>for (let attempt = 1; attempt <= maxRetries; attempt++)\<close>, entered with the
  current value of \<open>attempt\<close>. Leaving the loop by its condition ends the function
  without a \<open>return\<close>.
\<close>

function for_loop ::
  "engine \<Rightarrow> json \<Rightarrow> json \<Rightarrow> int \<Rightarrow> int \<Rightarrow> js_error option \<Rightarrow> outcome \<times> event list" where
  "for_loop eng html options maxRetries attempt lastError =
     (if attempt \<le> maxRetries then
        (case iteration eng html options maxRetries attempt lastError of
           (Normal, lastError', t) \<Rightarrow>
             (case for_loop eng html options maxRetries (attempt + 1) lastError' of
                (r, t') \<Rightarrow> (r, t @ t'))
         | (Return pdf, lastError', t) \<Rightarrow> (Returned (Some pdf), t)
         | (Throw e, lastError', t) \<Rightarrow> (Thrown e, t))
      else (Returned None, []))"
  by pat_completeness auto
termination
  by (relation "measure (\<lambda>(eng, html, options, maxRetries, attempt, lastError). nat (maxRetries + 1 - attempt))") auto

text \<open>
  \<open>async function generatePDF(html, options = {}, maxRetries = 2)\<close>: an omitted argument
  is \<open>None\<close> and takes its default.
\<close>

definition options_or_default :: "json option \<Rightarrow> json" where
  "options_or_default options_arg = (case options_arg of None \<Rightarrow> JObj [] | Some v \<Rightarrow> v)"

definition maxRetries_or_default :: "int option \<Rightarrow> int" where
  "maxRetries_or_default maxRetries_arg = (case maxRetries_arg of None \<Rightarrow> 2 | Some n \<Rightarrow> n)"

definition generatePDF ::
  "engine \<Rightarrow> json \<Rightarrow> json option \<Rightarrow> int option \<Rightarrow> outcome \<times> event list" where
  "generatePDF eng html options_arg maxRetries_arg =
     for_loop eng html (options_or_default options_arg) (maxRetries_or_default maxRetries_arg) 1 None"

section \<open>The POST /html-to-pdf handler\<close>

text \<open>
  What the handler asks of \<open>res\<close>: the status (200 unless set), the headers it sets with
  \<open>setHeader\<close>, and the body it sends with \<open>json\<close> or \<open>send\<close>.
\<close>

datatype header_value = HStr string | HNum nat

datatype payload = JsonBody json | PdfBody bytes

record response =
  status :: nat
  headers :: "(string \<times> header_value) list"
  body :: payload

definition usage_hint :: string where
  \<open>usage_hint = ''POST /html-to-pdf with { "html": "<html>...</html>", "options": {...} }''\<close>

definition availableOptions :: json where
  \<open>availableOptions = JObj
     [(''format'', JStr ''A4, A3, A2, A1, A0, Letter, Legal, Tabloid, Ledger''),
      (''width'', JStr ''CSS width (e.g., '210mm', '8.5in')''),
      (''height'', JStr ''CSS height (e.g., '297mm', '11in')''),
      (''margin'', JStr ''Object with top, right, bottom, left margins''),
      (''displayHeaderFooter'', JStr ''Boolean to show header/footer''),
      (''headerTemplate'', JStr ''HTML template for header''),
      (''footerTemplate'', JStr ''HTML template for footer''),
      (''printBackground'', JStr ''Boolean to include background graphics''),
      (''landscape'', JStr ''Boolean for landscape orientation''),
      (''pageRanges'', JStr ''String of page ranges (e.g., '1-3, 5')''),
      (''scale'', JStr ''Number between 0.1 and 2'')]\<close>

text \<open>The response of lines 125-142.\<close>

definition bad_request :: response where
  "bad_request =
     \<lparr>status = 400, headers = [],
      body = JsonBody (JObj [(''error'', JStr ''HTML content is required''),
                             (''usage'', JStr usage_hint),
                             (''availableOptions'', availableOptions)])\<rparr>"

text \<open>The response of the handler's \<open>catch\<close> block (lines 156-162), after the headers set so far.\<close>

definition server_error :: "(string \<times> header_value) list \<Rightarrow> js_error \<Rightarrow> response" where
  "server_error hs error =
     \<lparr>status = 500, headers = hs,
      body = JsonBody (JObj [(''error'', JStr ''Failed to generate PDF''),
                             (''details'', JStr (message error))])\<rparr>"

text \<open>
  The \<open>TypeError\<close>s the JavaScript runtime raises in the handler: destructuring a \<open>null\<close>
  body, converting an object to a string, and reading \<open>length\<close> of \<open>undefined\<close>. Their
  wording is the runtime's.
\<close>

definition destructure_null_error :: js_error where
  \<open>destructure_null_error = Error ''Cannot destructure property 'html' of 'req.body' as it is null.''\<close>

definition to_primitive_error :: js_error where
  "to_primitive_error = Error ''Cannot convert object to primitive value''"

definition length_of_undefined_error :: js_error where
  \<open>length_of_undefined_error = Error ''Cannot read properties of undefined (reading 'length')''\<close>

text \<open>
  Line 145 puts \<open>html.length\<close> into a template literal before anything is logged; this
  says whether that conversion throws (an absent \<open>length\<close> gives \<open>undefined\<close>, which
  converts).
\<close>

definition length_unprintable :: "json \<Rightarrow> bool" where
  "length_unprintable h = (case get_prop h ''length'' of None \<Rightarrow> False | Some v \<Rightarrow> to_string_throws v)"

definition pdf_headers :: "(string \<times> header_value) list" where
  \<open>pdf_headers =
     [(''Content-Type'', HStr ''application/pdf''),
      (''Content-Disposition'', HStr ''attachment; filename="document.pdf"'')]\<close>

text \<open>Lines 149-162: what the handler does with the result of \<open>await generatePDF(html, options)\<close>.\<close>

definition respond :: "outcome \<times> event list \<Rightarrow> response \<times> event list" where
  "respond r =
     (case r of
        (Returned (Some pdf), t) \<Rightarrow>
          (\<lparr>status = 200, headers = pdf_headers @ [(''Content-Length'', HNum (length pdf))],
            body = PdfBody pdf\<rparr>, t)
      | (Returned None, t) \<Rightarrow>
          (server_error pdf_headers length_of_undefined_error,
           t @ [LogServerError (message length_of_undefined_error)])
      | (Thrown error, t) \<Rightarrow> (server_error [] error, t @ [LogServerError (message error)]))"

text \<open>
  The handler (lines 120-163), given the engine and the parsed request body \<open>req.body\<close>.
  \<open>const { html, options = {} } = req.body\<close> throws on a \<open>null\<close> body; the default of
  \<open>options\<close> applies only to an absent property. An error thrown while the log line of
  line 145 is built ends in the \<open>catch\<close> block before \<open>generatePDF\<close> is called.
\<close>

definition post_html_to_pdf :: "engine \<Rightarrow> json \<Rightarrow> response \<times> event list" where
  "post_html_to_pdf eng req_body =
     (if req_body = JNull then
        (server_error [] destructure_null_error, [LogServerError (message destructure_null_error)])
      else
        (let html = get_prop req_body ''html'';
             options = (case get_prop req_body ''options'' of None \<Rightarrow> JObj [] | Some v \<Rightarrow> v) in
         case html of
           None \<Rightarrow> (bad_request, [])
         | Some h \<Rightarrow>
             if \<not> truthy h then (bad_request, [])
             else if length_unprintable h then
               (server_error [] to_primitive_error, [LogServerError (message to_primitive_error)])
             else (case respond (generatePDF eng h (Some options) None) of
                     (res, t) \<Rightarrow> (res, LogConverting (get_prop h ''length'') # t))))"

section \<open>Observations on a run\<close>

text \<open>
  What the engine does during an attempt when it is driven through launch, new page,
  content load and export: the error of the first step that fails, or the exported bytes.
\<close>

definition engine_outcome :: "attempt_script \<Rightarrow> json \<Rightarrow> pdf_options \<Rightarrow> js_error + bytes" where
  "engine_outcome s html po =
     (case launch_result s of Some e \<Rightarrow> Inl e
      | None \<Rightarrow> (case newPage_result s of Some e \<Rightarrow> Inl e
         | None \<Rightarrow> (case setContent_result s html of Some e \<Rightarrow> Inl e
            | None \<Rightarrow> pdf_result s po)))"

fun is_launch :: "event \<Rightarrow> bool" where
  "is_launch (LaunchCall r) = True"
| "is_launch ev = False"

fun is_launched :: "event \<Rightarrow> bool" where
  "is_launched (LaunchCall (Inr b)) = True"
| "is_launched ev = False"

fun is_browser_close :: "event \<Rightarrow> bool" where
  "is_browser_close (BrowserCloseCall b r) = True"
| "is_browser_close ev = False"

definition launch_calls :: "event list \<Rightarrow> nat" where
  "launch_calls t = length (filter is_launch t)"

definition launched :: "event list \<Rightarrow> nat" where
  "launched t = length (filter is_launched t)"

definition browser_close_calls :: "event list \<Rightarrow> nat" where
  "browser_close_calls t = length (filter is_browser_close t)"

text \<open>
  The browsers and pages that are open after an event. A launch or a new page that
  succeeds opens one. A page is closed when \<open>page.close()\<close> has been called on it and
  did not reject, or when the engine reports it closed already; a browser is closed
  when \<open>browser.close()\<close> has been called on it and did not reject. A close call that
  rejects leaves its browser or page open.
\<close>

fun track :: "event \<Rightarrow> browser list \<times> page list \<Rightarrow> browser list \<times> page list" where
  "track (LaunchCall (Inr b)) (bs, ps) = (b # bs, ps)"
| "track (NewPageCall b (Inr p)) (bs, ps) = (bs, p # ps)"
| "track (IsClosedCall p True) (bs, ps) = (bs, removeAll p ps)"
| "track (PageCloseCall p None) (bs, ps) = (bs, removeAll p ps)"
| "track (BrowserCloseCall b None) (bs, ps) = (removeAll b bs, ps)"
| "track ev st = st"

definition open_after :: "event list \<Rightarrow> browser list \<times> page list" where
  "open_after t = fold track t ([], [])"

text \<open>
  What an attempt of the engine leaves open when every browser and every page that is
  not already closed gets its close call: the browser if it was launched and its close
  call rejects, the page if it was opened, is not reported closed and its close call
  rejects.
\<close>

definition left_open :: "attempt_script \<Rightarrow> int \<Rightarrow> browser list \<times> page list" where
  "left_open s k =
     ((if launch_result s = None \<and> browser_close_result s \<noteq> None then [Browser k] else []),
      (if launch_result s = None \<and> newPage_result s = None \<and> \<not> isClosed_result s \<and>
          page_close_result s \<noteq> None
       then [Page k] else []))"

fun is_attempt_start :: "event \<Rightarrow> bool" where
  "is_attempt_start (LogAttempt k n) = True"
| "is_attempt_start ev = False"

text \<open>
  Nothing is open whenever an attempt starts (which is where the previous one ended)
  and when the run is over.
\<close>

fun clean_at_attempt_ends :: "event list \<Rightarrow> browser list \<times> page list \<Rightarrow> bool" where
  "clean_at_attempt_ends [] st = (st = ([], []))"
| "clean_at_attempt_ends (LogAttempt k n # t) st = (st = ([], []) \<and> clean_at_attempt_ends t st)"
| "clean_at_attempt_ends (ev # t) st = clean_at_attempt_ends t (track ev st)"

text \<open>The calls and warnings of the \<open>finally\<close> block.\<close>

fun is_cleanup :: "event \<Rightarrow> bool" where
  "is_cleanup (IsClosedCall p c) = True"
| "is_cleanup (PageCloseCall p r) = True"
| "is_cleanup (WarnPageClose m) = True"
| "is_cleanup (BrowserCloseCall b r) = True"
| "is_cleanup (WarnBrowserClose m) = True"
| "is_cleanup ev = False"

definition rendering_events :: "event list \<Rightarrow> event list" where
  "rendering_events t = filter (\<lambda>ev. \<not> is_cleanup ev) t"

text \<open>An engine whose cleanup operations answer as given, and that is otherwise \<open>eng\<close>.\<close>

definition with_cleanup ::
  "(int \<Rightarrow> bool) \<Rightarrow> (int \<Rightarrow> js_error option) \<Rightarrow> (int \<Rightarrow> js_error option) \<Rightarrow> engine \<Rightarrow> engine" where
  "with_cleanup ic pc bc eng =
     (\<lambda>k. (eng k)\<lparr>isClosed_result := ic k, page_close_result := pc k,
                   browser_close_result := bc k\<rparr>)"

text \<open>
  Two orders of the retry wait and the cleanup within an attempt. In the first the
  cleanup comes before the wait: once the wait is over, nothing of the cleanup is left
  to do before the next attempt starts. In the second the wait comes before the cleanup:
  once a cleanup call has been made, no wait follows before the next attempt starts.
\<close>

fun no_cleanup_in_attempt :: "event list \<Rightarrow> bool" where
  "no_cleanup_in_attempt [] = True"
| "no_cleanup_in_attempt (LogAttempt k n # t) = True"
| "no_cleanup_in_attempt (ev # t) = (\<not> is_cleanup ev \<and> no_cleanup_in_attempt t)"

fun cleanup_then_wait :: "event list \<Rightarrow> bool" where
  "cleanup_then_wait [] = True"
| "cleanup_then_wait (RetryWait ms # t) = (no_cleanup_in_attempt t \<and> cleanup_then_wait t)"
| "cleanup_then_wait (ev # t) = cleanup_then_wait t"

fun no_wait_in_attempt :: "event list \<Rightarrow> bool" where
  "no_wait_in_attempt [] = True"
| "no_wait_in_attempt (LogAttempt k n # t) = True"
| "no_wait_in_attempt (RetryWait ms # t) = False"
| "no_wait_in_attempt (ev # t) = no_wait_in_attempt t"

fun wait_then_cleanup :: "event list \<Rightarrow> bool" where
  "wait_then_cleanup [] = True"
| "wait_then_cleanup (ev # t) = ((is_cleanup ev \<longrightarrow> no_wait_in_attempt t) \<and> wait_then_cleanup t)"

text \<open>The options with which the PDF export was called, and the \<open>timeout\<close> among them.\<close>

fun pdf_call_options :: "event list \<Rightarrow> pdf_options list" where
  "pdf_call_options [] = []"
| "pdf_call_options (PdfCall p po r # t) = po # pdf_call_options t"
| "pdf_call_options (ev # t) = pdf_call_options t"

definition pdf_call_timeouts :: "event list \<Rightarrow> json option list" where
  "pdf_call_timeouts t = map (\<lambda>po. po ''timeout'') (pdf_call_options t)"

definition pdf_call_property :: "string \<Rightarrow> event list \<Rightarrow> json option list" where
  "pdf_call_property k t = map (\<lambda>po. po k) (pdf_call_options t)"

text \<open>Every PDF export of the run was called with a \<open>timeout\<close> of \<open>ms\<close> milliseconds.\<close>

definition exports_with_timeout :: "rat \<Rightarrow> event list \<Rightarrow> bool" where
  "exports_with_timeout ms t = list_all (\<lambda>v. v = Some (JNum ms)) (pdf_call_timeouts t)"

text \<open>The property a caller set in its options, if it set it.\<close>

definition caller_set :: "json \<Rightarrow> string \<Rightarrow> json option" where
  "caller_set options k = map_of (own_props options) k"

text \<open>
  The events of one attempt, block by block: those of the \<open>try\<close> block, those of the
  \<open>catch\<close> block (none when the export succeeded), and those of the \<open>finally\<close> block.
\<close>

definition try_events :: "engine \<Rightarrow> json \<Rightarrow> json \<Rightarrow> int \<Rightarrow> int \<Rightarrow> event list" where
  "try_events eng html options n k = snd (snd (snd (try_block eng html options n k)))"

definition catch_events :: "engine \<Rightarrow> json \<Rightarrow> json \<Rightarrow> int \<Rightarrow> int \<Rightarrow> event list" where
  "catch_events eng html options n k =
     (case engine_outcome (eng k) html (pdfOptions options) of
        Inl e \<Rightarrow> if k = n then [LogFailed k (message e)]
                 else [LogFailed k (message e), LogWaiting (k + 1), RetryWait 2000]
      | Inr pdf \<Rightarrow> [])"

definition cleanup_events :: "engine \<Rightarrow> json \<Rightarrow> json \<Rightarrow> int \<Rightarrow> int \<Rightarrow> event list" where
  "cleanup_events eng html options n k =
     (case try_block eng html options n k of
        (c, browser, page, t) \<Rightarrow> snd (finally_block browser page (eng k)))"

definition attempt_events :: "engine \<Rightarrow> json \<Rightarrow> json \<Rightarrow> int \<Rightarrow> int \<Rightarrow> event list" where
  "attempt_events eng html options n k =
     try_events eng html options n k @ catch_events eng html options n k @ cleanup_events eng html options n k"

text \<open>The browser and the page that the variables \<open>browser\<close> and \<open>page\<close> hold.\<close>

definition opened :: "browser option \<Rightarrow> page option \<Rightarrow> browser list \<times> page list" where
  "opened browser page =
     ((case browser of None \<Rightarrow> [] | Some b \<Rightarrow> [b]), (case page of None \<Rightarrow> [] | Some p \<Rightarrow> [p]))"

section \<open>Engines used as examples\<close>

definition sample_pdf :: bytes where
  "sample_pdf = [37, 80, 68, 70, 45]"

definition ok_script :: attempt_script where
  "ok_script =
     \<lparr>launch_result = None, newPage_result = None, setContent_result = (\<lambda>h. None),
      pdf_result = (\<lambda>po. Inr sample_pdf), isClosed_result = False,
      page_close_result = None, browser_close_result = None\<rparr>"

text \<open>An engine whose export fails on every attempt, with a message that names the attempt.\<close>

definition broken_engine :: engine where
  "broken_engine k =
     ok_script\<lparr>pdf_result := (\<lambda>po. Inl (Error (''export failed on attempt '' @ dec_string (nat k))))\<rparr>"

text \<open>An engine whose export fails on the first attempt only.\<close>

definition flaky_engine :: engine where
  "flaky_engine k = (if k = 1 then broken_engine 1 else ok_script)"

definition sample_html :: json where
  "sample_html = JStr ''<h1>Hello World</h1>''"

text \<open>Cleanup operations that never succeed: the page is reported open and both close calls reject.\<close>

definition never_closed :: "int \<Rightarrow> bool" where
  "never_closed k = False"

definition page_close_fails :: "int \<Rightarrow> js_error option" where
  "page_close_fails k = Some (Error ''page close failed'')"

definition browser_close_fails :: "int \<Rightarrow> js_error option" where
  "browser_close_fails k = Some (Error ''browser close failed'')"

text \<open>An engine on which every operation succeeds, and sample options and request bodies.\<close>

definition ok_engine :: engine where
  "ok_engine k = ok_script"

definition no_timeout_options :: json where
  "no_timeout_options = JObj [(''timeout'', JNum 0)]"

definition landscape_options :: json where
  "landscape_options = JObj [(''landscape'', JBool True), (''margin'', JObj [(''top'', JStr ''2cm'')])]"

definition number_body :: json where
  "number_body = JObj [(''html'', JNum 5)]"

text \<open>A body whose \<open>html\<close> is an object with a \<open>length\<close> that cannot be converted to a string.\<close>

definition unprintable_html :: json where
  "unprintable_html = JObj [(''length'', JObj [(''toString'', JNum 1)])]"

definition unprintable_body :: json where
  "unprintable_body = JObj [(''html'', unprintable_html)]"

section \<open>One attempt\<close>

lemma finally_block_normal: "fst (finally_block browser page s) = Normal"
  by (simp add: finally_block_def close_page_stmt_def close_browser_stmt_def try_close_page_def
      try_close_browser_def split: option.splits)

lemma finally_block_eq: "finally_block browser page s = (Normal, snd (finally_block browser page s))"
  by (metis finally_block_normal prod.collapse)

lemma try_block_completion:
  "fst (try_block eng html options n k) =
     (case engine_outcome (eng k) html (pdfOptions options) of Inl e \<Rightarrow> Throw e | Inr pdf \<Rightarrow> Return pdf)"
  by (simp add: try_block_def engine_outcome_def Let_def split: option.splits sum.splits)

lemma iteration_eq:
  "iteration eng html options n k le =
     (case try_block eng html options n k of
        (c, browser, page, t1) \<Rightarrow>
          (case (case c of Throw error \<Rightarrow> catch_block error n k | _ \<Rightarrow> (c, le, [])) of
             (c', le', t2) \<Rightarrow> (c', le', t1 @ t2 @ snd (finally_block browser page (eng k)))))"
  unfolding iteration_def
  by (subst finally_block_eq) (simp split: prod.splits)

lemma iteration_failed:
  assumes "engine_outcome (eng k) html (pdfOptions options) = Inl e"
  shows "iteration eng html options n k le =
           (if k = n then Throw e else Normal, Some e, attempt_events eng html options n k)"
proof (cases "try_block eng html options n k")
  case (fields c browser page t1)
  with assms try_block_completion[of eng html options n k] have "c = Throw e"
    by simp
  with fields assms show ?thesis
    by (simp add: iteration_eq catch_block_def attempt_events_def try_events_def catch_events_def
        cleanup_events_def)
qed

lemma iteration_succeeded:
  assumes "engine_outcome (eng k) html (pdfOptions options) = Inr pdf"
  shows "iteration eng html options n k le = (Return pdf, le, attempt_events eng html options n k)"
proof (cases "try_block eng html options n k")
  case (fields c browser page t1)
  with assms try_block_completion[of eng html options n k] have "c = Return pdf"
    by simp
  with fields assms show ?thesis
    by (simp add: iteration_eq attempt_events_def try_events_def catch_events_def cleanup_events_def)
qed

declare for_loop.simps [simp del]

lemma for_loop_done: "n < k \<Longrightarrow> for_loop eng html options n k le = (Returned None, [])"
  by (simp add: for_loop.simps)

lemma for_loop_succeeded:
  "k \<le> n \<Longrightarrow> engine_outcome (eng k) html (pdfOptions options) = Inr pdf \<Longrightarrow>
   for_loop eng html options n k le = (Returned (Some pdf), attempt_events eng html options n k)"
  by (subst for_loop.simps) (simp add: iteration_succeeded)

lemma for_loop_failed_last:
  "engine_outcome (eng n) html (pdfOptions options) = Inl e \<Longrightarrow>
   for_loop eng html options n n le = (Thrown e, attempt_events eng html options n n)"
  by (subst for_loop.simps) (simp add: iteration_failed)

lemma for_loop_failed_retry:
  "k < n \<Longrightarrow> engine_outcome (eng k) html (pdfOptions options) = Inl e \<Longrightarrow>
   for_loop eng html options n k le =
     (fst (for_loop eng html options n (k + 1) (Some e)),
      attempt_events eng html options n k @ snd (for_loop eng html options n (k + 1) (Some e)))"
  by (subst for_loop.simps) (simp add: iteration_failed split: prod.splits)

lemmas cleanup_defs = finally_block_def close_page_stmt_def close_browser_stmt_def
  try_close_page_def try_close_browser_def

lemma launch_calls_append: "launch_calls (t @ t') = launch_calls t + launch_calls t'"
  by (simp add: launch_calls_def)

lemma launched_append: "launched (t @ t') = launched t + launched t'"
  by (simp add: launched_def)

lemma browser_close_calls_append:
  "browser_close_calls (t @ t') = browser_close_calls t + browser_close_calls t'"
  by (simp add: browser_close_calls_def)

lemma try_events_counts:
  "try_block eng html options n k = (c, browser, page, t) \<Longrightarrow>
   launch_calls t = 1 \<and> browser_close_calls t = 0 \<and>
   launched t = (case browser of None \<Rightarrow> 0 | Some b \<Rightarrow> 1)"
  by (auto simp add: try_block_def launch_calls_def launched_def browser_close_calls_def Let_def
      split: option.splits sum.splits)

lemma catch_events_counts:
  "launch_calls (catch_events eng html options n k) = 0 \<and>
   browser_close_calls (catch_events eng html options n k) = 0 \<and>
   launched (catch_events eng html options n k) = 0"
  by (simp add: catch_events_def launch_calls_def launched_def browser_close_calls_def
      split: sum.splits)

lemma finally_events_counts:
  "launch_calls (snd (finally_block browser page s)) = 0 \<and>
   launched (snd (finally_block browser page s)) = 0 \<and>
   browser_close_calls (snd (finally_block browser page s)) = (case browser of None \<Rightarrow> 0 | Some b \<Rightarrow> 1)"
  by (simp add: cleanup_defs launch_calls_def launched_def browser_close_calls_def
      split: option.splits)

lemma attempt_events_counts:
  "launch_calls (attempt_events eng html options n k) = 1 \<and>
   browser_close_calls (attempt_events eng html options n k) = launched (attempt_events eng html options n k)"
proof (cases "try_block eng html options n k")
  case (fields c browser page t)
  from try_events_counts[OF fields] catch_events_counts[of eng html options n k]
    finally_events_counts[of browser page "eng k"] fields
  show ?thesis
    by (simp add: attempt_events_def try_events_def cleanup_events_def launch_calls_append
        launched_append browser_close_calls_append)
qed

lemma clean_at_attempt_ends_append:
  "\<forall>ev\<in>set t. \<not> is_attempt_start ev \<Longrightarrow>
   clean_at_attempt_ends (t @ t') st = clean_at_attempt_ends t' (fold track t st)"
proof (induction t arbitrary: st)
  case Nil
  show ?case by simp
next
  case (Cons ev t)
  then show ?case by (cases ev) simp_all
qed

lemma try_block_vars:
  "try_block eng html options n k = (c, browser, page, t) \<Longrightarrow>
   browser = (if launch_result (eng k) = None then Some (Browser k) else None) \<and>
   page = (if launch_result (eng k) = None \<and> newPage_result (eng k) = None then Some (Page k) else None)"
  by (auto simp add: try_block_def Let_def split: option.splits sum.splits)

lemma try_events_open:
  "try_block eng html options n k = (c, browser, page, t) \<Longrightarrow>
   fold track t ([], []) = opened browser page \<and>
   (\<exists>r. t = LogAttempt k n # r \<and> (\<forall>ev\<in>set r. \<not> is_attempt_start ev))"
  by (auto simp add: try_block_def opened_def Let_def split: option.splits sum.splits)

lemma catch_events_open:
  "fold track (catch_events eng html options n k) st = st \<and>
   (\<forall>ev\<in>set (catch_events eng html options n k). \<not> is_attempt_start ev)"
  by (cases st) (auto simp add: catch_events_def split: sum.splits if_splits)

lemma finally_events_open:
  "fold track (snd (finally_block browser page s)) (opened browser page) =
     ((case browser of None \<Rightarrow> [] | Some b \<Rightarrow> if browser_close_result s = None then [] else [b]),
      (case page of None \<Rightarrow> []
       | Some p \<Rightarrow> if isClosed_result s \<or> page_close_result s = None then [] else [p])) \<and>
   (\<forall>ev\<in>set (snd (finally_block browser page s)). \<not> is_attempt_start ev)"
  by (auto simp add: cleanup_defs opened_def split: option.splits)

lemma finally_events_browser_call:
  "BrowserCloseCall b (browser_close_result s) \<in> set (snd (finally_block (Some b) page s))"
  by (simp add: cleanup_defs split: option.splits)

lemma finally_events_page_calls:
  "IsClosedCall p (isClosed_result s) \<in> set (snd (finally_block browser (Some p) s)) \<and>
   (\<not> isClosed_result s \<longrightarrow>
      PageCloseCall p (page_close_result s) \<in> set (snd (finally_block browser (Some p) s)))"
  by (simp add: cleanup_defs split: option.splits)

lemma cleanup_events_calls:
  "(launch_result (eng k) = None \<longrightarrow>
      BrowserCloseCall (Browser k) (browser_close_result (eng k)) \<in> set (cleanup_events eng html options n k)) \<and>
   (launch_result (eng k) = None \<and> newPage_result (eng k) = None \<longrightarrow>
      IsClosedCall (Page k) (isClosed_result (eng k)) \<in> set (cleanup_events eng html options n k) \<and>
      (\<not> isClosed_result (eng k) \<longrightarrow>
         PageCloseCall (Page k) (page_close_result (eng k)) \<in> set (cleanup_events eng html options n k)))"
proof (cases "try_block eng html options n k")
  case (fields c browser page t)
  have events: "cleanup_events eng html options n k = snd (finally_block browser page (eng k))"
    using fields by (simp add: cleanup_events_def)
  have "BrowserCloseCall (Browser k) (browser_close_result (eng k)) \<in> set (cleanup_events eng html options n k)"
    if "launch_result (eng k) = None"
  proof -
    from try_block_vars[OF fields] that have "browser = Some (Browser k)"
      by simp
    then show ?thesis
      using finally_events_browser_call[of "Browser k" "eng k" page] events by simp
  qed
  moreover have "IsClosedCall (Page k) (isClosed_result (eng k)) \<in> set (cleanup_events eng html options n k) \<and>
      (\<not> isClosed_result (eng k) \<longrightarrow>
         PageCloseCall (Page k) (page_close_result (eng k)) \<in> set (cleanup_events eng html options n k))"
    if "launch_result (eng k) = None \<and> newPage_result (eng k) = None"
  proof -
    from try_block_vars[OF fields] that have "page = Some (Page k)"
      by simp
    then show ?thesis
      using finally_events_page_calls[of "Page k" "eng k" browser] events by simp
  qed
  ultimately show ?thesis by blast
qed

lemma attempt_events_shape:
  "\<exists>r. attempt_events eng html options n k = LogAttempt k n # r \<and>
       (\<forall>ev\<in>set r. \<not> is_attempt_start ev) \<and> fold track r ([], []) = left_open (eng k) k"
proof (cases "try_block eng html options n k")
  case (fields c browser page t)
  from try_events_open[OF fields] obtain r where
    t: "t = LogAttempt k n # r" and r: "\<forall>ev\<in>set r. \<not> is_attempt_start ev"
    and tr: "fold track t ([], []) = opened browser page"
    by blast
  let ?c = "catch_events eng html options n k"
  let ?f = "snd (finally_block browser page (eng k))"
  have events: "attempt_events eng html options n k = LogAttempt k n # (r @ ?c @ ?f)"
    using fields t by (simp add: attempt_events_def try_events_def cleanup_events_def)
  have starts: "\<forall>ev\<in>set (r @ ?c @ ?f). \<not> is_attempt_start ev"
    using r catch_events_open[of eng html options n k] finally_events_open[of browser page "eng k"]
    by auto
  from tr t have "fold track r ([], []) = opened browser page"
    by simp
  then have "fold track (r @ ?c @ ?f) ([], []) = fold track ?f (opened browser page)"
    using catch_events_open[of eng html options n k "opened browser page"] by simp
  also have "\<dots> = left_open (eng k) k"
    using try_block_vars[OF fields] finally_events_open[of browser page "eng k"]
    by (auto simp add: left_open_def)
  finally show ?thesis
    using events starts by blast
qed

lemma attempt_events_open: "open_after (attempt_events eng html options n k) = left_open (eng k) k"
  using attempt_events_shape[of eng html options n k] by (auto simp add: open_after_def)

lemma attempt_events_clean:
  "clean_at_attempt_ends (attempt_events eng html options n k @ t') ([], []) =
   clean_at_attempt_ends t' (left_open (eng k) k)"
  using attempt_events_shape[of eng html options n k]
  by (auto simp add: clean_at_attempt_ends_append)

lemma for_loop_outcome_induct [case_names exhausted succeeded failed_last failed_retry]:
  fixes n :: int
  assumes exhausted: "\<And>k le. n < k \<Longrightarrow> P k le"
    and succeeded: "\<And>k le pdf. k \<le> n \<Longrightarrow>
           engine_outcome (eng k) html (pdfOptions options) = Inr pdf \<Longrightarrow> P k le"
    and failed_last: "\<And>le e. engine_outcome (eng n) html (pdfOptions options) = Inl e \<Longrightarrow> P n le"
    and failed_retry: "\<And>k le e. k < n \<Longrightarrow>
           engine_outcome (eng k) html (pdfOptions options) = Inl e \<Longrightarrow> P (k + 1) (Some e) \<Longrightarrow> P k le"
  shows "P k le"
proof (induction "nat (n + 1 - k)" arbitrary: k le)
  case 0
  then have "n < k" by simp
  then show ?case by (rule exhausted)
next
  case (Suc m)
  then have kn: "k \<le> n" by simp
  show ?case
  proof (cases "engine_outcome (eng k) html (pdfOptions options)")
    case (Inr pdf)
    with kn show ?thesis by (rule succeeded)
  next
    case (Inl e)
    show ?thesis
    proof (cases "k = n")
      case True
      with Inl show ?thesis by (simp add: failed_last)
    next
      case False
      with kn have lt: "k < n" by simp
      from Suc.hyps(2) have "m = nat (n + 1 - (k + 1))" by simp
      then have "P (k + 1) (Some e)" by (rule Suc.hyps(1))
      with lt Inl show ?thesis by (rule failed_retry)
    qed
  qed
qed

lemma for_loop_clean:
  assumes "\<forall>j. left_open (eng j) j = ([], [])"
  shows "clean_at_attempt_ends (snd (for_loop eng html options n k le)) ([], [])"
proof (induction k le rule: for_loop_outcome_induct[where n = n and eng = eng and html = html and options = options])
  case (exhausted k le)
  then show ?case by (simp add: for_loop_done)
next
  case (succeeded k le pdf)
  then show ?case
    using attempt_events_clean[of eng html options n k "[]"] assms by (simp add: for_loop_succeeded)
next
  case (failed_last le e)
  then show ?case
    using attempt_events_clean[of eng html options n n "[]"] assms by (simp add: for_loop_failed_last)
next
  case (failed_retry k le e)
  then show ?case
    using assms by (simp add: for_loop_failed_retry attempt_events_clean)
qed

lemma for_loop_attempts:
  "\<exists>m. k - 1 \<le> m \<and>
       snd (for_loop eng html options n k le) = concat (map (attempt_events eng html options n) [k..m])"
proof (induction k le rule: for_loop_outcome_induct[where n = n and eng = eng and html = html and options = options])
  case (exhausted k le)
  have "snd (for_loop eng html options n k le) = concat (map (attempt_events eng html options n) [k..k - 1])"
    using exhausted by (simp add: for_loop_done)
  then show ?case by (intro exI[of _ "k - 1"]) simp
next
  case (succeeded k le pdf)
  then have "snd (for_loop eng html options n k le) = concat (map (attempt_events eng html options n) [k..k])"
    by (simp add: for_loop_succeeded)
  then show ?case by (intro exI[of _ k]) simp
next
  case (failed_last le e)
  then have "snd (for_loop eng html options n n le) = concat (map (attempt_events eng html options n) [n..n])"
    by (simp add: for_loop_failed_last)
  then show ?case by (intro exI[of _ n]) simp
next
  case (failed_retry k le e)
  then obtain m where m: "k \<le> m"
    and rest: "snd (for_loop eng html options n (k + 1) (Some e)) =
      concat (map (attempt_events eng html options n) [k + 1..m])"
    by auto
  from m have "[k..m] = k # [k + 1..m]"
    by (simp add: upto_rec1)
  with failed_retry(1,2) rest
  have "snd (for_loop eng html options n k le) = concat (map (attempt_events eng html options n) [k..m])"
    by (simp add: for_loop_failed_retry)
  with m show ?case by (intro exI[of _ m]) simp
qed

lemma for_loop_all_failed:
  assumes "k \<le> n" and "\<forall>j\<in>{k..<n}. isl (engine_outcome (eng j) html (pdfOptions options))"
    and "engine_outcome (eng n) html (pdfOptions options) = Inl e"
  shows "for_loop eng html options n k le =
           (Thrown e, concat (map (attempt_events eng html options n) [k..n]))"
  using assms
proof (induction "nat (n - k)" arbitrary: k le)
  case 0
  then have "k = n" by simp
  with 0 show ?case by (simp add: for_loop_failed_last)
next
  case (Suc m)
  then have lt: "k < n" by simp
  with Suc.prems have "isl (engine_outcome (eng k) html (pdfOptions options))"
    by simp
  then obtain e' where e': "engine_outcome (eng k) html (pdfOptions options) = Inl e'"
    by (cases "engine_outcome (eng k) html (pdfOptions options)") auto
  have "for_loop eng html options n (k + 1) (Some e') =
          (Thrown e, concat (map (attempt_events eng html options n) [k + 1..n]))"
    using Suc.hyps(2) Suc.prems lt by (intro Suc.hyps(1)) auto
  moreover have "[k..n] = k # [k + 1..n]"
    using lt by (simp add: upto_rec1)
  ultimately show ?case
    using lt e' by (simp add: for_loop_failed_retry)
qed

lemma for_loop_first_success:
  assumes "a \<le> k" and "k \<le> n"
    and "\<forall>j\<in>{a..<k}. isl (engine_outcome (eng j) html (pdfOptions options))"
    and "engine_outcome (eng k) html (pdfOptions options) = Inr pdf"
  shows "for_loop eng html options n a le =
           (Returned (Some pdf), concat (map (attempt_events eng html options n) [a..k]))"
  using assms
proof (induction "nat (k - a)" arbitrary: a le)
  case 0
  then have "a = k" by simp
  with 0 show ?case by (simp add: for_loop_succeeded)
next
  case (Suc m)
  then have lt: "a < k" by simp
  with Suc.prems have "isl (engine_outcome (eng a) html (pdfOptions options))"
    by simp
  then obtain e' where e': "engine_outcome (eng a) html (pdfOptions options) = Inl e'"
    by (cases "engine_outcome (eng a) html (pdfOptions options)") auto
  have "for_loop eng html options n (a + 1) (Some e') =
          (Returned (Some pdf), concat (map (attempt_events eng html options n) [a + 1..k]))"
    using Suc.hyps(2) Suc.prems lt by (intro Suc.hyps(1)) auto
  moreover have "[a..k] = a # [a + 1..k]"
    using lt by (simp add: upto_rec1)
  ultimately show ?case
    using lt e' Suc.prems by (simp add: for_loop_failed_retry)
qed

lemma launch_calls_attempts:
  "launch_calls (concat (map (attempt_events eng html options n) ks)) = length ks"
proof (induction ks)
  case Nil
  show ?case by (simp add: launch_calls_def)
next
  case (Cons k ks)
  with attempt_events_counts[of eng html options n k] show ?case
    by (simp add: launch_calls_append)
qed

lemma closes_attempts:
  "browser_close_calls (concat (map (attempt_events eng html options n) ks)) =
   launched (concat (map (attempt_events eng html options n) ks))"
proof (induction ks)
  case Nil
  show ?case by (simp add: launched_def browser_close_calls_def)
next
  case (Cons k ks)
  with attempt_events_counts[of eng html options n k] show ?case
    by (simp add: launched_append browser_close_calls_append)
qed

lemma iteration_events: "snd (snd (iteration eng html options n k le)) = attempt_events eng html options n k"
  by (cases "engine_outcome (eng k) html (pdfOptions options)")
    (simp_all add: iteration_failed iteration_succeeded)

lemma for_loop_closes:
  "browser_close_calls (snd (for_loop eng html options n k le)) =
   launched (snd (for_loop eng html options n k le))"
proof (induction k le rule: for_loop_outcome_induct[where n = n and eng = eng and html = html and options = options])
  case (exhausted k le)
  then show ?case by (simp add: for_loop_done launched_def browser_close_calls_def)
next
  case (succeeded k le pdf)
  then show ?case by (simp add: for_loop_succeeded attempt_events_counts)
next
  case (failed_last le e)
  then show ?case by (simp add: for_loop_failed_last attempt_events_counts)
next
  case (failed_retry k le e)
  then show ?case
    by (simp add: for_loop_failed_retry attempt_events_counts launched_append browser_close_calls_append)
qed

lemma rendering_events_append: "rendering_events (t @ t') = rendering_events t @ rendering_events t'"
  by (simp add: rendering_events_def)

lemma finally_events_rendering: "rendering_events (snd (finally_block browser page s)) = []"
  by (simp add: cleanup_defs rendering_events_def split: option.splits)

lemma cleanup_events_rendering: "rendering_events (cleanup_events eng html options n k) = []"
  by (simp add: cleanup_events_def finally_events_rendering split: prod.splits)

lemma with_cleanup_outcome:
  "engine_outcome (with_cleanup ic pc bc eng k) html po = engine_outcome (eng k) html po"
  by (simp add: engine_outcome_def with_cleanup_def split: option.splits)

lemma with_cleanup_try_block:
  "try_block (with_cleanup ic pc bc eng) html options n k = try_block eng html options n k"
  by (simp add: try_block_def with_cleanup_def Let_def split: option.splits)

lemma with_cleanup_attempt_events:
  "rendering_events (attempt_events (with_cleanup ic pc bc eng) html options n k) =
   rendering_events (attempt_events eng html options n k)"
  by (simp add: attempt_events_def rendering_events_append cleanup_events_rendering try_events_def
      catch_events_def with_cleanup_try_block with_cleanup_outcome)

lemma with_cleanup_for_loop:
  "fst (for_loop (with_cleanup ic pc bc eng) html options n k le) = fst (for_loop eng html options n k le) \<and>
   rendering_events (snd (for_loop (with_cleanup ic pc bc eng) html options n k le)) =
   rendering_events (snd (for_loop eng html options n k le))"
proof (induction k le rule: for_loop_outcome_induct[where n = n and eng = eng and html = html and options = options])
  case (exhausted k le)
  then show ?case by (simp add: for_loop_done)
next
  case (succeeded k le pdf)
  then show ?case
    by (simp add: for_loop_succeeded with_cleanup_outcome with_cleanup_attempt_events)
next
  case (failed_last le e)
  then show ?case
    by (simp add: for_loop_failed_last with_cleanup_outcome with_cleanup_attempt_events)
next
  case (failed_retry k le e)
  then show ?case
    by (simp add: for_loop_failed_retry with_cleanup_outcome with_cleanup_attempt_events
        rendering_events_append)
qed

lemma wait_then_cleanup_rendering:
  "\<forall>ev\<in>set t. \<not> is_cleanup ev \<Longrightarrow> wait_then_cleanup (t @ t') = wait_then_cleanup t'"
  by (induction t) simp_all

lemma try_events_rendering:
  "\<forall>ev\<in>set (try_events eng html options n k). \<not> is_cleanup ev"
  by (simp add: try_events_def try_block_def Let_def split: option.splits sum.splits)

lemma catch_events_rendering:
  "\<forall>ev\<in>set (catch_events eng html options n k). \<not> is_cleanup ev"
  by (auto simp add: catch_events_def split: sum.splits if_splits)

lemma finally_events_cleanup: "\<forall>ev\<in>set (snd (finally_block browser page s)). is_cleanup ev"
  by (simp add: cleanup_defs split: option.splits)

lemma cleanup_events_cleanup: "\<forall>ev\<in>set (cleanup_events eng html options n k). is_cleanup ev"
  by (cases "try_block eng html options n k") (simp add: cleanup_events_def finally_events_cleanup)

lemma finally_events_order:
  "no_wait_in_attempt t' \<Longrightarrow>
   wait_then_cleanup (snd (finally_block browser page s) @ t') = wait_then_cleanup t'"
  by (simp add: cleanup_defs split: option.splits)

lemma cleanup_events_order:
  "no_wait_in_attempt t' \<Longrightarrow>
   wait_then_cleanup (cleanup_events eng html options n k @ t') = wait_then_cleanup t'"
  by (simp add: cleanup_events_def finally_events_order split: prod.splits)

lemma attempt_events_order:
  "no_wait_in_attempt t' \<Longrightarrow>
   wait_then_cleanup (attempt_events eng html options n k @ t') = wait_then_cleanup t'"
  by (simp add: attempt_events_def wait_then_cleanup_rendering try_events_rendering
      catch_events_rendering cleanup_events_order)

lemma try_events_start: "\<exists>t. try_events eng html options n k = LogAttempt k n # t"
  by (simp add: try_events_def try_block_def Let_def split: option.splits sum.splits)

lemma attempt_events_start: "no_wait_in_attempt (attempt_events eng html options n k @ t')"
  using try_events_start[of eng html options n k] by (auto simp add: attempt_events_def)

lemma for_loop_order:
  "no_wait_in_attempt (snd (for_loop eng html options n k le)) \<and>
   wait_then_cleanup (snd (for_loop eng html options n k le))"
proof (induction k le rule: for_loop_outcome_induct[where n = n and eng = eng and html = html and options = options])
  case (exhausted k le)
  then show ?case by (simp add: for_loop_done)
next
  case (succeeded k le pdf)
  then show ?case
    using attempt_events_start[of eng html options n k "[]"]
      attempt_events_order[of "[]" eng html options n k]
    by (simp add: for_loop_succeeded)
next
  case (failed_last le e)
  then show ?case
    using attempt_events_start[of eng html options n n "[]"]
      attempt_events_order[of "[]" eng html options n n]
    by (simp add: for_loop_failed_last)
next
  case (failed_retry k le e)
  then show ?case
    by (simp add: for_loop_failed_retry attempt_events_start attempt_events_order)
qed

lemma pdf_call_options_append: "pdf_call_options (t @ t') = pdf_call_options t @ pdf_call_options t'"
  by (induction t rule: pdf_call_options.induct) simp_all

lemma try_events_pdf_calls:
  "\<forall>po\<in>set (pdf_call_options (try_events eng html options n k)). po = pdfOptions options"
  by (simp add: try_events_def try_block_def Let_def split: option.splits sum.splits)

lemma catch_events_pdf_calls: "pdf_call_options (catch_events eng html options n k) = []"
  by (simp add: catch_events_def split: sum.splits)

lemma finally_events_pdf_calls: "pdf_call_options (snd (finally_block browser page s)) = []"
  by (simp add: cleanup_defs split: option.splits)

lemma cleanup_events_pdf_calls: "pdf_call_options (cleanup_events eng html options n k) = []"
  by (cases "try_block eng html options n k") (simp add: cleanup_events_def finally_events_pdf_calls)

lemma attempt_events_pdf_calls:
  "\<forall>po\<in>set (pdf_call_options (attempt_events eng html options n k)). po = pdfOptions options"
  using try_events_pdf_calls[of eng html options n k]
  by (simp add: attempt_events_def pdf_call_options_append catch_events_pdf_calls cleanup_events_pdf_calls)

lemma for_loop_pdf_calls:
  "\<forall>po\<in>set (pdf_call_options (snd (for_loop eng html options n k le))). po = pdfOptions options"
proof (induction k le rule: for_loop_outcome_induct[where n = n and eng = eng and html = html and options = options])
  case (exhausted k le)
  then show ?case by (simp add: for_loop_done)
next
  case (succeeded k le pdf)
  then show ?case by (simp add: for_loop_succeeded attempt_events_pdf_calls)
next
  case (failed_last le e)
  then show ?case by (simp add: for_loop_failed_last attempt_events_pdf_calls)
next
  case (failed_retry k le e)
  then show ?case
    using attempt_events_pdf_calls[of eng html options n k]
    by (auto simp add: for_loop_failed_retry pdf_call_options_append)
qed

lemma pdfOptions_merge:
  "pdfOptions options k =
     (case caller_set options k of None \<Rightarrow> map_of default_pdf_options k | Some v \<Rightarrow> Some v)"
  by (simp add: pdfOptions_def caller_set_def map_add_def)

lemma default_pdf_options_values:
  "map_of default_pdf_options ''format'' = Some (JStr ''A4'')"
  "map_of default_pdf_options ''printBackground'' = Some (JBool True)"
  "map_of default_pdf_options ''margin'' =
     Some (JObj [(''top'', JStr ''1cm''), (''right'', JStr ''1cm''),
                 (''bottom'', JStr ''1cm''), (''left'', JStr ''1cm'')])"
  "map_of default_pdf_options ''timeout'' = Some (JNum 30000)"
  by (simp_all add: default_pdf_options_def)

lemma attempt_events_nonempty: "attempt_events eng html options n k \<noteq> []"
  using try_events_start[of eng html options n k] by (auto simp add: attempt_events_def)

lemma generatePDF_default_events: "snd (generatePDF eng h oa None) \<noteq> []"
proof (cases "engine_outcome (eng 1) h (pdfOptions (options_or_default oa))")
  case (Inl e)
  then show ?thesis
    by (simp add: generatePDF_def maxRetries_or_default_def for_loop_failed_retry attempt_events_nonempty)
next
  case (Inr pdf)
  then show ?thesis
    by (simp add: generatePDF_def maxRetries_or_default_def for_loop_succeeded attempt_events_nonempty)
qed

lemma respond_status: "status (fst (respond r)) = 200 \<or> status (fst (respond r)) = 500"
  by (simp add: respond_def server_error_def split: prod.splits outcome.splits option.splits)

section \<open>The retry loop\<close>

text \<open>
  Claim C1. Let \<open>maxRetries = n \<ge> 1\<close> and let every attempt fail: the engine makes each
  of the attempts \<open>1, ..., n\<close> end in an error at the launch, the new page, the content
  load or the export, and \<open>e\<close> is the error of attempt \<open>n\<close>. Then \<open>generatePDF\<close> throws
  exactly \<open>e\<close>; its events are those of the attempts \<open>1, ..., n\<close> one after the other,
  so the engine is launched exactly \<open>n\<close> times and \<open>browser.close()\<close> is called once
  for every browser that a launch returned; and no attempt before the \<open>n\<close>-th throws:
  each of them completes normally and the loop goes on.
\<close>

theorem generatePDF_all_attempts_fail:
  assumes "1 \<le> n"
    and "\<forall>k\<in>{1..<n}. isl (engine_outcome (eng k) html (pdfOptions (options_or_default oa)))"
    and "engine_outcome (eng n) html (pdfOptions (options_or_default oa)) = Inl e"
  shows "fst (generatePDF eng html oa (Some n)) = Thrown e \<and>
         snd (generatePDF eng html oa (Some n)) =
           concat (map (attempt_events eng html (options_or_default oa) n) [1..n]) \<and>
         launch_calls (snd (generatePDF eng html oa (Some n))) = nat n \<and>
         browser_close_calls (snd (generatePDF eng html oa (Some n))) =
           launched (snd (generatePDF eng html oa (Some n))) \<and>
         (\<forall>k\<in>{1..<n}. \<forall>le. fst (iteration eng html (options_or_default oa) n k le) = Normal)"
proof -
  have run: "generatePDF eng html oa (Some n) =
      (Thrown e, concat (map (attempt_events eng html (options_or_default oa) n) [1..n]))"
    unfolding generatePDF_def maxRetries_or_default_def using assms
    by (simp add: for_loop_all_failed)
  have "fst (iteration eng html (options_or_default oa) n k le) = Normal" if "k \<in> {1..<n}" for k le
  proof -
    from that assms(2) have "isl (engine_outcome (eng k) html (pdfOptions (options_or_default oa)))"
      by (rule_tac bspec)
    then obtain e' where "engine_outcome (eng k) html (pdfOptions (options_or_default oa)) = Inl e'"
      by (cases "engine_outcome (eng k) html (pdfOptions (options_or_default oa))") auto
    with that show ?thesis by (simp add: iteration_failed)
  qed
  with run assms(1) show ?thesis
    by (simp add: launch_calls_attempts closes_attempts)
qed

theorem generatePDF_all_attempts_fail_witness:
  "engine_outcome (broken_engine 3) sample_html (pdfOptions (options_or_default None)) =
     Inl (Error ''export failed on attempt 3'') \<and>
   fst (generatePDF broken_engine sample_html None (Some 3)) = Thrown (Error ''export failed on attempt 3'') \<and>
   launch_calls (snd (generatePDF broken_engine sample_html None (Some 3))) = 3"
proof -
  have last: "engine_outcome (broken_engine 3) sample_html (pdfOptions (options_or_default None)) =
      Inl (Error ''export failed on attempt 3'')"
    by code_simp
  have earlier: "\<forall>k\<in>{1..<3}. isl (engine_outcome (broken_engine k) sample_html (pdfOptions (options_or_default None)))"
    by (simp add: engine_outcome_def broken_engine_def ok_script_def)
  have "(1::int) \<le> 3"
    by simp
  note run = generatePDF_all_attempts_fail[OF this earlier last]
  from run have "fst (generatePDF broken_engine sample_html None (Some 3)) = Thrown (Error ''export failed on attempt 3'')"
    by blast
  moreover from run have "launch_calls (snd (generatePDF broken_engine sample_html None (Some 3))) = nat 3"
    by blast
  ultimately show ?thesis using last by simp
qed

text \<open>
  Claim C3. Let \<open>1 \<le> k \<le> n\<close>, let the attempts before \<open>k\<close> fail and let the export of
  attempt \<open>k\<close> answer the buffer \<open>pdf\<close>. Then \<open>generatePDF\<close> returns \<open>pdf\<close> itself, and
  its events are those of the attempts \<open>1, ..., k\<close> and nothing more: the engine is
  launched exactly \<open>k\<close> times, and \<open>browser.close()\<close> is called once for every browser
  that a launch returned.
\<close>

theorem generatePDF_first_success:
  assumes "1 \<le> k" and "k \<le> n"
    and "\<forall>j\<in>{1..<k}. isl (engine_outcome (eng j) html (pdfOptions (options_or_default oa)))"
    and "engine_outcome (eng k) html (pdfOptions (options_or_default oa)) = Inr pdf"
  shows "fst (generatePDF eng html oa (Some n)) = Returned (Some pdf) \<and>
         snd (generatePDF eng html oa (Some n)) =
           concat (map (attempt_events eng html (options_or_default oa) n) [1..k]) \<and>
         launch_calls (snd (generatePDF eng html oa (Some n))) = nat k \<and>
         browser_close_calls (snd (generatePDF eng html oa (Some n))) =
           launched (snd (generatePDF eng html oa (Some n)))"
proof -
  have run: "generatePDF eng html oa (Some n) =
      (Returned (Some pdf), concat (map (attempt_events eng html (options_or_default oa) n) [1..k]))"
    unfolding generatePDF_def maxRetries_or_default_def using assms
    by (simp add: for_loop_first_success)
  with assms(1) show ?thesis
    by (simp add: launch_calls_attempts closes_attempts)
qed

theorem generatePDF_first_success_witness:
  "isl (engine_outcome (flaky_engine 1) sample_html (pdfOptions (options_or_default None))) \<and>
   engine_outcome (flaky_engine 2) sample_html (pdfOptions (options_or_default None)) = Inr sample_pdf \<and>
   fst (generatePDF flaky_engine sample_html None (Some 5)) = Returned (Some sample_pdf) \<and>
   launch_calls (snd (generatePDF flaky_engine sample_html None (Some 5))) = 2"
proof -
  have first: "isl (engine_outcome (flaky_engine 1) sample_html (pdfOptions (options_or_default None)))"
    by (simp add: engine_outcome_def flaky_engine_def broken_engine_def ok_script_def)
  have earlier: "\<forall>j\<in>{1..<2}. isl (engine_outcome (flaky_engine j) sample_html (pdfOptions (options_or_default None)))"
    by (auto simp add: engine_outcome_def flaky_engine_def broken_engine_def ok_script_def)
  have second: "engine_outcome (flaky_engine 2) sample_html (pdfOptions (options_or_default None)) = Inr sample_pdf"
    by (simp add: engine_outcome_def flaky_engine_def ok_script_def)
  have "(1::int) \<le> 2" and "(2::int) \<le> 5"
    by simp_all
  note run = generatePDF_first_success[OF this earlier second]
  from run have "fst (generatePDF flaky_engine sample_html None (Some 5)) = Returned (Some sample_pdf)"
    by blast
  moreover from run have "launch_calls (snd (generatePDF flaky_engine sample_html None (Some 5))) = nat 2"
    by blast
  ultimately show ?thesis using first second by simp
qed

text \<open>
  Claim C2, as amended. Every run of \<open>generatePDF\<close>, whether it returns or throws, is a
  sequence of attempts \<open>1, ..., m\<close>, and the events of an attempt are those of one pass
  through the loop body. In the cleanup of every attempt, whatever its outcome,
  \<open>browser.close()\<close> is called on the browser if the launch returned one, and if a page
  was opened the engine is asked whether it is closed and \<open>page.close()\<close> is called on
  it unless the engine reports it closed. What is open at the end of an attempt is
  exactly what a rejecting close call left open: the browser if its close call
  rejected, the page if its close call rejected. So when no close call rejects,
  nothing is open whenever an attempt starts and when the run is over. Over the whole
  run \<open>browser.close()\<close> is called exactly as often as a launch returned a browser.
\<close>

theorem cleanup_closes_what_was_opened:
  "(\<exists>m. snd (generatePDF eng html oa ma) =
         concat (map (attempt_events eng html (options_or_default oa) (maxRetries_or_default ma)) [1..m])) \<and>
   snd (snd (iteration eng html options n k le)) = attempt_events eng html options n k \<and>
   (launch_result (eng k) = None \<longrightarrow>
      BrowserCloseCall (Browser k) (browser_close_result (eng k)) \<in> set (cleanup_events eng html options n k)) \<and>
   (launch_result (eng k) = None \<and> newPage_result (eng k) = None \<longrightarrow>
      IsClosedCall (Page k) (isClosed_result (eng k)) \<in> set (cleanup_events eng html options n k) \<and>
      (\<not> isClosed_result (eng k) \<longrightarrow>
         PageCloseCall (Page k) (page_close_result (eng k)) \<in> set (cleanup_events eng html options n k))) \<and>
   open_after (attempt_events eng html options n k) = left_open (eng k) k \<and>
   ((\<forall>j. page_close_result (eng j) = None \<and> browser_close_result (eng j) = None) \<longrightarrow>
      clean_at_attempt_ends (snd (generatePDF eng html oa ma)) ([], [])) \<and>
   browser_close_calls (snd (generatePDF eng html oa ma)) = launched (snd (generatePDF eng html oa ma))"
proof -
  have attempts: "\<exists>m. snd (generatePDF eng html oa ma) =
      concat (map (attempt_events eng html (options_or_default oa) (maxRetries_or_default ma)) [1..m])"
    using for_loop_attempts[of 1 eng html "options_or_default oa" "maxRetries_or_default ma" None]
    by (auto simp add: generatePDF_def)
  have clean: "clean_at_attempt_ends (snd (generatePDF eng html oa ma)) ([], [])"
    if "\<forall>j. page_close_result (eng j) = None \<and> browser_close_result (eng j) = None"
  proof -
    from that have "\<forall>j. left_open (eng j) j = ([], [])"
      by (simp add: left_open_def)
    then show ?thesis
      by (simp add: generatePDF_def for_loop_clean)
  qed
  have closes: "browser_close_calls (snd (generatePDF eng html oa ma)) =
      launched (snd (generatePDF eng html oa ma))"
    by (simp add: generatePDF_def for_loop_closes)
  from attempts clean closes show ?thesis
    using cleanup_events_calls[of eng k html options n] attempt_events_open[of eng html options n k]
      iteration_events[of eng html options n k le]
    by blast
qed

theorem cleanup_closes_what_was_opened_witness:
  "BrowserCloseCall (Browser 1) None \<in> set (cleanup_events flaky_engine sample_html (JObj []) 2 1) \<and>
   IsClosedCall (Page 1) False \<in> set (cleanup_events flaky_engine sample_html (JObj []) 2 1) \<and>
   PageCloseCall (Page 1) None \<in> set (cleanup_events flaky_engine sample_html (JObj []) 2 1) \<and>
   open_after (attempt_events flaky_engine sample_html (JObj []) 2 1) = ([], []) \<and>
   clean_at_attempt_ends (snd (generatePDF flaky_engine sample_html None None)) ([], [])"
proof -
  have script: "launch_result (flaky_engine 1) = None" "newPage_result (flaky_engine 1) = None"
    "isClosed_result (flaky_engine 1) = False" "page_close_result (flaky_engine 1) = None"
    "browser_close_result (flaky_engine 1) = None"
    by (simp_all add: flaky_engine_def broken_engine_def ok_script_def)
  have resolve: "\<forall>j. page_close_result (flaky_engine j) = None \<and> browser_close_result (flaky_engine j) = None"
    by (simp add: flaky_engine_def broken_engine_def ok_script_def)
  have none_left: "left_open (flaky_engine 1) 1 = ([], [])"
    using script by (simp add: left_open_def)
  note run = cleanup_closes_what_was_opened[where eng = flaky_engine and k = 1 and html = sample_html
      and options = "JObj []" and n = 2 and le = None and oa = None and ma = None]
  from run have "launch_result (flaky_engine 1) = None \<longrightarrow>
      BrowserCloseCall (Browser 1) (browser_close_result (flaky_engine 1)) \<in>
        set (cleanup_events flaky_engine sample_html (JObj []) 2 1)"
    by blast
  with script have browser: "BrowserCloseCall (Browser 1) None \<in>
      set (cleanup_events flaky_engine sample_html (JObj []) 2 1)"
    by simp
  from run have "launch_result (flaky_engine 1) = None \<and> newPage_result (flaky_engine 1) = None \<longrightarrow>
      IsClosedCall (Page 1) (isClosed_result (flaky_engine 1)) \<in>
        set (cleanup_events flaky_engine sample_html (JObj []) 2 1) \<and>
      (\<not> isClosed_result (flaky_engine 1) \<longrightarrow>
         PageCloseCall (Page 1) (page_close_result (flaky_engine 1)) \<in>
           set (cleanup_events flaky_engine sample_html (JObj []) 2 1))"
    by blast
  with script have page: "IsClosedCall (Page 1) False \<in> set (cleanup_events flaky_engine sample_html (JObj []) 2 1)"
    "PageCloseCall (Page 1) None \<in> set (cleanup_events flaky_engine sample_html (JObj []) 2 1)"
    by simp_all
  from run have "open_after (attempt_events flaky_engine sample_html (JObj []) 2 1) = left_open (flaky_engine 1) 1"
    by blast
  with none_left have "open_after (attempt_events flaky_engine sample_html (JObj []) 2 1) = ([], [])"
    by simp
  moreover from run resolve have "clean_at_attempt_ends (snd (generatePDF flaky_engine sample_html None None)) ([], [])"
    by blast
  ultimately show ?thesis using browser page by simp
qed

text \<open>
  Claim C2 as stated does not hold for every run: on an engine that exports the PDF
  and whose close calls reject, \<open>generatePDF\<close> returns the bytes while the browser and
  the page of the attempt are still open.
\<close>

theorem nothing_left_open_counterexample:
  "fst (generatePDF (with_cleanup never_closed page_close_fails browser_close_fails ok_engine)
         sample_html None None) = Returned (Some sample_pdf) \<and>
   open_after (snd (generatePDF (with_cleanup never_closed page_close_fails browser_close_fails ok_engine)
         sample_html None None)) = ([Browser 1], [Page 1]) \<and>
   \<not> clean_at_attempt_ends
       (snd (generatePDF (with_cleanup never_closed page_close_fails browser_close_fails ok_engine)
         sample_html None None)) ([], [])"
  by code_simp

text \<open>
  Claim C9. With \<open>maxRetries \<le> 0\<close> the loop body never runs: \<open>generatePDF\<close> makes no
  engine call and no other event, throws nothing, and returns \<open>undefined\<close>.
\<close>

theorem generatePDF_no_attempts:
  "n \<le> 0 \<Longrightarrow> generatePDF eng html oa (Some n) = (Returned None, [])"
  by (simp add: generatePDF_def maxRetries_or_default_def for_loop_done)

theorem generatePDF_no_attempts_witness:
  "(0::int) \<le> 0 \<and> generatePDF broken_engine sample_html None (Some 0) = (Returned None, []) \<and>
   launch_calls (snd (generatePDF broken_engine sample_html None (Some 0))) = 0"
  using generatePDF_no_attempts[of 0 broken_engine sample_html None]
  by (simp add: launch_calls_def)

section \<open>Cleanup\<close>

text \<open>
  Claim C4. The \<open>finally\<close> block always completes normally, whatever \<open>page.close()\<close> and
  \<open>browser.close()\<close> do, so it never replaces the completion of \<open>try\<close>/\<open>catch\<close>. Take any
  engine and change only what its cleanup operations answer (what \<open>isClosed\<close> reports and
  whether either close call rejects, per attempt): every pass through the loop body
  completes the same way and leaves the same \<open>lastError\<close>; \<open>generatePDF\<close> returns the same
  bytes or throws the same error; and apart from the cleanup calls and their warnings
  the run consists of the same events, so the same attempts are made.
\<close>

theorem cleanup_errors_are_swallowed:
  "fst (finally_block browser page s) = Normal \<and>
   fst (iteration (with_cleanup ic pc bc eng) html options n k le) =
     fst (iteration eng html options n k le) \<and>
   fst (snd (iteration (with_cleanup ic pc bc eng) html options n k le)) =
     fst (snd (iteration eng html options n k le)) \<and>
   fst (generatePDF (with_cleanup ic pc bc eng) html oa ma) = fst (generatePDF eng html oa ma) \<and>
   rendering_events (snd (generatePDF (with_cleanup ic pc bc eng) html oa ma)) =
     rendering_events (snd (generatePDF eng html oa ma))"
proof -
  have "fst (iteration (with_cleanup ic pc bc eng) html options n k le) = fst (iteration eng html options n k le) \<and>
        fst (snd (iteration (with_cleanup ic pc bc eng) html options n k le)) = fst (snd (iteration eng html options n k le))"
    by (cases "engine_outcome (eng k) html (pdfOptions options)")
      (simp_all add: iteration_failed iteration_succeeded with_cleanup_outcome)
  then show ?thesis
    by (simp add: finally_block_normal generatePDF_def with_cleanup_for_loop)
qed

theorem cleanup_errors_are_swallowed_witness:
  "fst (generatePDF (with_cleanup never_closed page_close_fails browser_close_fails flaky_engine)
         sample_html None None) = Returned (Some sample_pdf) \<and>
   fst (generatePDF (with_cleanup never_closed page_close_fails browser_close_fails broken_engine)
         sample_html None None) = Thrown (Error ''export failed on attempt 2'')"
proof -
  have "fst (generatePDF flaky_engine sample_html None None) = Returned (Some sample_pdf)"
    by code_simp
  moreover have "fst (generatePDF broken_engine sample_html None None) = Thrown (Error ''export failed on attempt 2'')"
    by code_simp
  ultimately show ?thesis
    using cleanup_errors_are_swallowed[of _ _ _ never_closed page_close_fails browser_close_fails flaky_engine
        sample_html _ _ _ _ None None]
      cleanup_errors_are_swallowed[of _ _ _ never_closed page_close_fails browser_close_fails broken_engine
        sample_html _ _ _ _ None None]
    by simp
qed

text \<open>
  Claim C5, as amended. Let attempt \<open>k\<close> fail with error \<open>e\<close>. If it is not the final
  attempt, the pass through the loop body consists of the events of the \<open>try\<close> block,
  then the failure report, the retry notice and the two-second wait, and only then
  the cleanup calls; it completes normally with \<open>lastError = e\<close>, and the loop continues
  with attempt \<open>k + 1\<close>. If it is the final attempt, the pass consists of the events of
  the \<open>try\<close> block, the failure report and the cleanup calls, and then \<open>e\<close> is thrown.
  The events of the \<open>try\<close> block contain no cleanup call and the cleanup events are
  nothing else. In every run, once a cleanup call has been made no retry wait follows
  before the next attempt starts.
\<close>

theorem failed_attempt_waits_then_cleans_up:
  assumes "engine_outcome (eng k) html (pdfOptions options) = Inl e"
  shows "(k \<noteq> n \<longrightarrow>
            iteration eng html options n k le =
              (Normal, Some e,
               try_events eng html options n k @
               [LogFailed k (message e), LogWaiting (k + 1), RetryWait 2000] @
               cleanup_events eng html options n k)) \<and>
         (k < n \<longrightarrow>
            for_loop eng html options n k le =
              (fst (for_loop eng html options n (k + 1) (Some e)),
               snd (snd (iteration eng html options n k le)) @
               snd (for_loop eng html options n (k + 1) (Some e)))) \<and>
         (k = n \<longrightarrow>
            iteration eng html options n k le =
              (Throw e, Some e,
               try_events eng html options n k @ [LogFailed k (message e)] @
               cleanup_events eng html options n k) \<and>
            for_loop eng html options n k le = (Thrown e, snd (snd (iteration eng html options n k le)))) \<and>
         (\<forall>ev\<in>set (try_events eng html options n k). \<not> is_cleanup ev) \<and>
         (\<forall>ev\<in>set (cleanup_events eng html options n k). is_cleanup ev) \<and>
         wait_then_cleanup (snd (generatePDF eng html oa ma))"
proof -
  have events: "attempt_events eng html options n k =
      try_events eng html options n k @
      (if k = n then [LogFailed k (message e)]
       else [LogFailed k (message e), LogWaiting (k + 1), RetryWait 2000]) @
      cleanup_events eng html options n k"
    using assms by (simp add: attempt_events_def catch_events_def)
  have retry: "iteration eng html options n k le =
      (Normal, Some e,
       try_events eng html options n k @
       [LogFailed k (message e), LogWaiting (k + 1), RetryWait 2000] @
       cleanup_events eng html options n k)" if "k \<noteq> n"
    using assms that events by (simp add: iteration_failed)
  have continue: "for_loop eng html options n k le =
      (fst (for_loop eng html options n (k + 1) (Some e)),
       snd (snd (iteration eng html options n k le)) @
       snd (for_loop eng html options n (k + 1) (Some e)))" if "k < n"
    using assms that by (simp add: for_loop_failed_retry iteration_events)
  have final: "iteration eng html options n k le =
      (Throw e, Some e,
       try_events eng html options n k @ [LogFailed k (message e)] @
       cleanup_events eng html options n k) \<and>
      for_loop eng html options n k le = (Thrown e, snd (snd (iteration eng html options n k le)))"
    if "k = n"
    using assms that events by (simp add: iteration_failed for_loop_failed_last)
  have "wait_then_cleanup (snd (generatePDF eng html oa ma))"
    by (simp add: generatePDF_def for_loop_order)
  with retry continue final show ?thesis
    using try_events_rendering[of eng html options n k] cleanup_events_cleanup[of eng html options n k]
    by blast
qed

theorem failed_attempt_waits_then_cleans_up_witness:
  "engine_outcome (flaky_engine 1) sample_html (pdfOptions (JObj [])) =
     Inl (Error ''export failed on attempt 1'') \<and>
   fst (iteration flaky_engine sample_html (JObj []) 2 1 None) = Normal \<and>
   fst (snd (iteration flaky_engine sample_html (JObj []) 2 1 None)) =
     Some (Error ''export failed on attempt 1'') \<and>
   wait_then_cleanup (snd (generatePDF flaky_engine sample_html None None))"
proof -
  have failed: "engine_outcome (flaky_engine 1) sample_html (pdfOptions (JObj [])) =
      Inl (Error ''export failed on attempt 1'')"
    by code_simp
  note run = failed_attempt_waits_then_cleans_up[where eng = flaky_engine and k = 1 and n = 2
      and le = None and oa = None and ma = None, OF failed]
  from run have "iteration flaky_engine sample_html (JObj []) 2 1 None =
      (Normal, Some (Error ''export failed on attempt 1''),
       try_events flaky_engine sample_html (JObj []) 2 1 @
       [LogFailed 1 (message (Error ''export failed on attempt 1'')), LogWaiting (1 + 1), RetryWait 2000] @
       cleanup_events flaky_engine sample_html (JObj []) 2 1)"
    by simp
  moreover from run have "wait_then_cleanup (snd (generatePDF flaky_engine sample_html None None))"
    by blast
  ultimately show ?thesis using failed by simp
qed

text \<open>
  The order stated in claim C5 (cleanup, then the wait) does not hold: when the export
  of the first of two attempts fails, cleanup calls follow the retry wait.
\<close>

theorem cleanup_before_wait_counterexample:
  "\<not> cleanup_then_wait (snd (generatePDF flaky_engine sample_html None None))"
  by code_simp

section \<open>The options of the PDF export\<close>

text \<open>
  Claim C6, as amended. Every call of the PDF export made by \<open>generatePDF\<close> gets the
  defaults with the caller's options spread over them: a property the caller set has
  the caller's value, any other property has its default. In particular the \<open>timeout\<close>
  is 30000 ms (30 seconds) unless the caller's options have a \<open>timeout\<close> property of
  their own, which then replaces it.
\<close>

theorem export_gets_merged_options:
  "(\<forall>po\<in>set (pdf_call_options (snd (generatePDF eng html oa ma))). po = pdfOptions (options_or_default oa)) \<and>
   (\<forall>k. pdfOptions options k =
      (case caller_set options k of None \<Rightarrow> map_of default_pdf_options k | Some v \<Rightarrow> Some v)) \<and>
   pdfOptions options ''timeout'' =
      (case caller_set options ''timeout'' of None \<Rightarrow> Some (JNum 30000) | Some v \<Rightarrow> Some v)"
  by (simp add: generatePDF_def for_loop_pdf_calls pdfOptions_merge default_pdf_options_values
      split: option.splits)

theorem export_gets_merged_options_witness:
  "pdf_call_options (snd (generatePDF ok_engine sample_html (Some landscape_options) None)) =
     [pdfOptions landscape_options] \<and>
   pdf_call_timeouts (snd (generatePDF ok_engine sample_html (Some landscape_options) None)) =
     [Some (JNum 30000)]"
proof -
  have one: "length (pdf_call_options (snd (generatePDF ok_engine sample_html (Some landscape_options) None))) = 1"
    by code_simp
  have unset: "caller_set landscape_options ''timeout'' = None"
    by (simp add: caller_set_def landscape_options_def)
  from one obtain po where po: "pdf_call_options (snd (generatePDF ok_engine sample_html (Some landscape_options) None)) = [po]"
    by (cases "pdf_call_options (snd (generatePDF ok_engine sample_html (Some landscape_options) None))") auto
  note merged = export_gets_merged_options[of ok_engine sample_html "Some landscape_options" None landscape_options]
  from merged po have "po = pdfOptions landscape_options"
    by (simp add: options_or_default_def)
  moreover from merged have "pdfOptions landscape_options ''timeout'' =
      (case caller_set landscape_options ''timeout'' of None \<Rightarrow> Some (JNum 30000) | Some v \<Rightarrow> Some v)"
    by blast
  with unset have "pdfOptions landscape_options ''timeout'' = Some (JNum 30000)"
    by simp
  ultimately show ?thesis using po by (simp add: pdf_call_timeouts_def)
qed

text \<open>
  The timeout of claim C6 is not 30 seconds for every options value: with the options
  \<open>{ timeout: 0 }\<close> the export is called with the timeout 0.
\<close>

theorem export_timeout_counterexample:
  "pdf_call_timeouts (snd (generatePDF ok_engine sample_html (Some no_timeout_options) None)) = [Some (JNum 0)] \<and>
   \<not> exports_with_timeout 30000 (snd (generatePDF ok_engine sample_html (Some no_timeout_options) None))"
  by code_simp

text \<open>
  Claim C7. In the options of every PDF export that \<open>generatePDF\<close> calls, each of the
  fields \<open>format\<close>, \<open>printBackground\<close> and \<open>margin\<close> that the caller's options leave
  unset has its default (\<open>A4\<close>, \<open>true\<close>, and the margin object with \<open>1cm\<close> for \<open>top\<close>,
  \<open>right\<close>, \<open>bottom\<close> and \<open>left\<close>), and every field that the caller's options set has
  the caller's value.
\<close>

theorem unset_options_take_defaults:
  "\<forall>po\<in>set (pdf_call_options (snd (generatePDF eng html oa ma))).
     (caller_set (options_or_default oa) ''format'' = None \<longrightarrow> po ''format'' = Some (JStr ''A4'')) \<and>
     (caller_set (options_or_default oa) ''printBackground'' = None \<longrightarrow>
        po ''printBackground'' = Some (JBool True)) \<and>
     (caller_set (options_or_default oa) ''margin'' = None \<longrightarrow>
        po ''margin'' = Some (JObj [(''top'', JStr ''1cm''), (''right'', JStr ''1cm''),
                                    (''bottom'', JStr ''1cm''), (''left'', JStr ''1cm'')])) \<and>
     (\<forall>k v. caller_set (options_or_default oa) k = Some v \<longrightarrow> po k = Some v)"
proof
  fix po
  assume "po \<in> set (pdf_call_options (snd (generatePDF eng html oa ma)))"
  then have "po = pdfOptions (options_or_default oa)"
    using for_loop_pdf_calls by (simp add: generatePDF_def)
  then show "(caller_set (options_or_default oa) ''format'' = None \<longrightarrow> po ''format'' = Some (JStr ''A4'')) \<and>
     (caller_set (options_or_default oa) ''printBackground'' = None \<longrightarrow>
        po ''printBackground'' = Some (JBool True)) \<and>
     (caller_set (options_or_default oa) ''margin'' = None \<longrightarrow>
        po ''margin'' = Some (JObj [(''top'', JStr ''1cm''), (''right'', JStr ''1cm''),
                                    (''bottom'', JStr ''1cm''), (''left'', JStr ''1cm'')])) \<and>
     (\<forall>k v. caller_set (options_or_default oa) k = Some v \<longrightarrow> po k = Some v)"
    by (simp add: pdfOptions_merge default_pdf_options_values)
qed

theorem unset_options_take_defaults_witness:
  "pdf_call_property ''format'' (snd (generatePDF ok_engine sample_html (Some landscape_options) None)) =
     [Some (JStr ''A4'')] \<and>
   pdf_call_property ''printBackground'' (snd (generatePDF ok_engine sample_html (Some landscape_options) None)) =
     [Some (JBool True)] \<and>
   pdf_call_property ''margin'' (snd (generatePDF ok_engine sample_html (Some landscape_options) None)) =
     [Some (JObj [(''top'', JStr ''2cm'')])] \<and>
   pdf_call_property ''landscape'' (snd (generatePDF ok_engine sample_html (Some landscape_options) None)) =
     [Some (JBool True)]"
proof -
  have "length (pdf_call_options (snd (generatePDF ok_engine sample_html (Some landscape_options) None))) = 1"
    by code_simp
  then obtain po where po:
    "pdf_call_options (snd (generatePDF ok_engine sample_html (Some landscape_options) None)) = [po]"
    by (cases "pdf_call_options (snd (generatePDF ok_engine sample_html (Some landscape_options) None))") auto
  have caller: "caller_set (options_or_default (Some landscape_options)) ''format'' = None"
    "caller_set (options_or_default (Some landscape_options)) ''printBackground'' = None"
    "caller_set (options_or_default (Some landscape_options)) ''margin'' = Some (JObj [(''top'', JStr ''2cm'')])"
    "caller_set (options_or_default (Some landscape_options)) ''landscape'' = Some (JBool True)"
    by (simp_all add: caller_set_def options_or_default_def landscape_options_def)
  from unset_options_take_defaults[of ok_engine sample_html "Some landscape_options" None] po caller
  have "po ''format'' = Some (JStr ''A4'')" and "po ''printBackground'' = Some (JBool True)"
    and "po ''margin'' = Some (JObj [(''top'', JStr ''2cm'')])" and "po ''landscape'' = Some (JBool True)"
    by simp_all
  with po show ?thesis
    by (simp add: pdf_call_property_def)
qed

section \<open>Validation in the handler\<close>

text \<open>
  Claim C8. For a request whose body has no \<open>html\<close> property, or has the empty string
  there, the handler answers with status 400 and a JSON object that has the \<open>error\<close>
  field and the \<open>usage\<close> hint, and it makes no event at all. Since every call of
  \<open>generatePDF\<close> with the default number of attempts makes at least one event, there
  was no such call.
\<close>

theorem missing_html_is_rejected:
  assumes "req_body \<noteq> JNull"
    and "get_prop req_body ''html'' = None \<or> get_prop req_body ''html'' = Some (JStr [])"
  shows "post_html_to_pdf eng req_body = (bad_request, []) \<and>
         status bad_request = 400 \<and>
         body bad_request =
           JsonBody (JObj [(''error'', JStr ''HTML content is required''),
                           (''usage'', JStr usage_hint),
                           (''availableOptions'', availableOptions)]) \<and>
         (\<forall>h oa. snd (generatePDF eng h oa None) \<noteq> [])"
  using assms by (auto simp add: post_html_to_pdf_def bad_request_def generatePDF_default_events)

theorem missing_html_is_rejected_witness:
  "post_html_to_pdf ok_engine (JObj []) = (bad_request, []) \<and>
   post_html_to_pdf ok_engine (JObj [(''html'', JStr []), (''options'', JObj [])]) = (bad_request, []) \<and>
   status bad_request = 400"
  using missing_html_is_rejected[of "JObj []" ok_engine]
    missing_html_is_rejected[of "JObj [(''html'', JStr []), (''options'', JObj [])]" ok_engine]
  by simp

text \<open>
  Claim C10, as amended. Let the body have an \<open>html\<close> property \<open>h\<close>. The handler tests
  only whether \<open>h\<close> is truthy: if it is not (as for the empty string) the answer is the
  400 response and nothing else happens; if it is, whatever the type of \<open>h\<close>, the
  answer is never the status 400. A truthy \<open>h\<close> whose \<open>length\<close> can be put into the log
  line is logged and passed itself as the \<open>html\<close> argument of \<open>generatePDF\<close>, and the
  answer is what that call gives. This is so for every number, boolean, string and
  array and for every object without a \<open>length\<close> property. Every array, every object,
  the boolean \<open>true\<close> and every number other than zero is truthy.
\<close>

theorem truthy_html_is_forwarded:
  assumes "req_body \<noteq> JNull" and "get_prop req_body ''html'' = Some h"
  shows "(truthy h \<longrightarrow> status (fst (post_html_to_pdf eng req_body)) \<noteq> 400) \<and>
         (truthy h \<and> \<not> length_unprintable h \<longrightarrow>
            post_html_to_pdf eng req_body =
              (fst (respond (generatePDF eng h
                      (Some (case get_prop req_body ''options'' of None \<Rightarrow> JObj [] | Some v \<Rightarrow> v)) None)),
               LogConverting (get_prop h ''length'') #
               snd (respond (generatePDF eng h
                      (Some (case get_prop req_body ''options'' of None \<Rightarrow> JObj [] | Some v \<Rightarrow> v)) None)))) \<and>
         (\<not> truthy h \<longrightarrow> post_html_to_pdf eng req_body = (bad_request, [])) \<and>
         \<not> truthy (JStr []) \<and> truthy (JArr xs) \<and> truthy (JObj kvs) \<and> truthy (JBool True) \<and>
         (r \<noteq> 0 \<longrightarrow> truthy (JNum r)) \<and>
         \<not> length_unprintable (JNum r) \<and> \<not> length_unprintable (JBool b) \<and>
         \<not> length_unprintable (JStr s) \<and> \<not> length_unprintable (JArr xs) \<and>
         (map_of kvs ''length'' = None \<longrightarrow> \<not> length_unprintable (JObj kvs))"
proof -
  let ?r = "respond (generatePDF eng h
      (Some (case get_prop req_body ''options'' of None \<Rightarrow> JObj [] | Some v \<Rightarrow> v)) None)"
  have forwarded: "post_html_to_pdf eng req_body = (fst ?r, LogConverting (get_prop h ''length'') # snd ?r)"
    if "truthy h" and "\<not> length_unprintable h"
    using assms that by (simp add: post_html_to_pdf_def split: prod.splits)
  have thrown: "status (fst (post_html_to_pdf eng req_body)) = 500"
    if "truthy h" and "length_unprintable h"
    using assms that by (simp add: post_html_to_pdf_def server_error_def)
  have "status (fst ?r) \<noteq> 400"
    using respond_status[of "generatePDF eng h
      (Some (case get_prop req_body ''options'' of None \<Rightarrow> JObj [] | Some v \<Rightarrow> v)) None"]
    by auto
  with forwarded thrown have passes: "status (fst (post_html_to_pdf eng req_body)) \<noteq> 400" if "truthy h"
    using that by (cases "length_unprintable h") simp_all
  have rejected: "post_html_to_pdf eng req_body = (bad_request, [])" if "\<not> truthy h"
    using assms that by (simp add: post_html_to_pdf_def)
  have "\<not> length_unprintable (JNum r)" and "\<not> length_unprintable (JBool b)"
    and "\<not> length_unprintable (JStr s)" and "\<not> length_unprintable (JArr xs)"
    and "map_of kvs ''length'' = None \<longrightarrow> \<not> length_unprintable (JObj kvs)"
    by (simp_all add: length_unprintable_def)
  with forwarded passes rejected show ?thesis by simp
qed

theorem truthy_html_is_forwarded_witness:
  "truthy (JNum 5) \<and> \<not> length_unprintable (JNum 5) \<and>
   snd (post_html_to_pdf ok_engine number_body) =
     LogConverting None # snd (respond (generatePDF ok_engine (JNum 5) (Some (JObj [])) None)) \<and>
   status (fst (post_html_to_pdf ok_engine number_body)) = 200"
proof -
  have "number_body \<noteq> JNull" and "get_prop number_body ''html'' = Some (JNum 5)"
    by (simp_all add: number_body_def)
  note run = truthy_html_is_forwarded[OF this, of ok_engine]
  have none: "get_prop number_body ''options'' = None"
    by (simp add: number_body_def)
  have ok: "truthy (JNum 5)" "\<not> length_unprintable (JNum 5)"
    by (simp_all add: length_unprintable_def)
  with run have "post_html_to_pdf ok_engine number_body =
      (fst (respond (generatePDF ok_engine (JNum 5)
              (Some (case get_prop number_body ''options'' of None \<Rightarrow> JObj [] | Some v \<Rightarrow> v)) None)),
       LogConverting (get_prop (JNum 5) ''length'') #
       snd (respond (generatePDF ok_engine (JNum 5)
              (Some (case get_prop number_body ''options'' of None \<Rightarrow> JObj [] | Some v \<Rightarrow> v)) None)))"
    by blast
  moreover have "status (fst (respond (generatePDF ok_engine (JNum 5) (Some (JObj [])) None))) = 200"
    by code_simp
  ultimately show ?thesis using none ok by simp
qed

text \<open>
  Claim C10 as stated does not hold for every truthy value: an object whose \<open>length\<close>
  has an own \<open>toString\<close> property is truthy and passes the validation, but building the
  log line throws, the handler answers 500, and the engine is never launched, while a
  call of \<open>generatePDF\<close> with that value would launch it.
\<close>

theorem truthy_html_not_forwarded_counterexample:
  "get_prop unprintable_body ''html'' = Some unprintable_html \<and>
   truthy unprintable_html \<and>
   status (fst (post_html_to_pdf ok_engine unprintable_body)) = 500 \<and>
   snd (post_html_to_pdf ok_engine unprintable_body) = [LogServerError (message to_primitive_error)] \<and>
   launch_calls (snd (post_html_to_pdf ok_engine unprintable_body)) = 0 \<and>
   launch_calls (snd (generatePDF ok_engine unprintable_html (Some (JObj [])) None)) = 1"
proof -
  have "launch_calls (snd (generatePDF ok_engine unprintable_html (Some (JObj [])) None)) = 1"
    by code_simp
  then show ?thesis
    by (simp add: post_html_to_pdf_def unprintable_body_def unprintable_html_def length_unprintable_def
        server_error_def launch_calls_def)
qed

end
